theory Spec2Isabelle
  imports Main "HOL-Library.Word" "HOL-Library.Sublist"
begin

unbundle bit_operations_syntax

section \<open>Directory of the extendible-hash index (db.go)\<close>

text \<open>
  The directory fields of \<^verbatim>\<open>dbInfo\<close> with the widths the Go struct gives them:
  \<^verbatim>\<open>level uint8\<close>, the others \<^verbatim>\<open>uint32\<close>, the freelist offset \<^verbatim>\<open>int64\<close>
  (kept as its 64-bit pattern).
\<close>

record dbInfo =
  level :: "8 word"
  count :: "32 word"
  nBlocks :: "32 word"
  splitBlockIdx :: "32 word"
  freelistOff :: "64 word"
  hashSeed :: "32 word"

text \<open>
  Go's \<^verbatim>\<open>1 << n\<close> at type \<^verbatim>\<open>uint32\<close> with an unsigned shift count: the bits
  shifted beyond the width are dropped, so the result is 0 from \<^verbatim>\<open>n = 32\<close> on.
\<close>

definition shl1 :: "8 word \<Rightarrow> 32 word" where
  "shl1 n = push_bit (unat n) 1"

text \<open>
  \<^verbatim>\<open>DB.blockIndex\<close> (the same body in both variants of db.go):
  \<^verbatim>\<open>idx := hash & ((1 << db.level) - 1)
  if idx < db.splitBlockIdx { return hash & ((1 << (db.level + 1)) - 1) }
  return idx\<close>
  \<^verbatim>\<open>db.level + 1\<close> is \<^verbatim>\<open>uint8\<close> arithmetic.
\<close>

definition blockIndex :: "'a dbInfo_scheme \<Rightarrow> 32 word \<Rightarrow> 32 word" where
  "blockIndex db keyHash =
     (let idx = keyHash AND (shl1 (level db) - 1)
      in if idx < splitBlockIdx db
         then keyHash AND (shl1 (level db + 1) - 1)
         else idx)"

text \<open>
  The directory formula of the specification, read over unbounded naturals:
  \<^verbatim>\<open>h & ((1<<k)-1)\<close> is \<^verbatim>\<open>h mod 2^k\<close>.
\<close>

definition dir_index :: "nat \<Rightarrow> nat \<Rightarrow> nat \<Rightarrow> nat" where
  "dir_index lvl split h =
     (let idx = h mod 2 ^ lvl in if idx < split then h mod 2 ^ (lvl + 1) else idx)"

section \<open>Index blocks, overflow chains and split (db.go)\<close>

datatype error =
  ErrIo | ErrCorrupted | ErrClosed | ErrFull | ErrTopicEmpty | ErrEntryInvalid | ErrWal

definition entriesPerBlock :: nat where
  "entriesPerBlock = 22"

text \<open>
  An index entry, as db.go fills it in \<^verbatim>\<open>put\<close>: \<^verbatim>\<open>hash, keySize\<close> (\<^verbatim>\<open>topicSize\<close>
  in the variant with topics), \<^verbatim>\<open>valueSize, expiresAt, kvOffset\<close>. A slot whose
  \<^verbatim>\<open>kvOffset\<close> is 0 is empty.
\<close>

record entry =
  hash :: "32 word"
  keySize :: "16 word"
  valueSize :: "32 word"
  expiresAt :: "32 word"
  kvOffset :: "64 word"

definition zero_entry :: entry where
  "zero_entry = \<lparr>hash = 0, keySize = 0, valueSize = 0, expiresAt = 0, kvOffset = 0\<rparr>"

text \<open>
  A block: the array \<^verbatim>\<open>entries [entriesPerBlock]entry\<close> (a list of that length) and
  the overflow pointer \<^verbatim>\<open>next int64\<close>, 0 at the end of a chain.
\<close>

record block =
  entries :: "entry list"
  bnext :: "64 word"

definition empty_block :: block where
  "empty_block = \<lparr>entries = replicate entriesPerBlock zero_entry, bnext = 0\<rparr>"

text \<open>
  Where a block lives. The index file holds one block per directory slot, block \<open>i\<close>
  at byte offset \<^verbatim>\<open>blockOffset(i) = headerSize + blockSize * i\<close>; it is addressed here
  by its number \<open>i\<close>. Overflow blocks live in the data file, addressed by their byte
  offset.
\<close>

datatype loc = InIndex nat | InData "64 word"

text \<open>
  The DB: the directory fields, the blocks of the index file, the overflow blocks of
  the data file, and the file system's behaviour.

  Modelled from the spec: the file and allocator primitives \<^verbatim>\<open>index.extend\<close>,
  \<^verbatim>\<open>blockHandle.read\<close>, \<^verbatim>\<open>blockHandle.write\<close>, \<^verbatim>\<open>data.allocate\<close>, \<^verbatim>\<open>data.free\<close>
  and the \<^verbatim>\<open>entryWriter\<close> are not among the source files. The specification has
  fixed-size block I/O with extension, and overflow blocks "allocated lazily from the
  data file's freelist when the tail block is full". \<open>pool\<close> lists the block offsets
  the data file's allocator hands out next; \<open>capacity\<close> is the number of blocks the
  index file can grow to; \<open>wfail\<close> says that the file system rejects writes.
\<close>

record DB = dbInfo +
  index :: "block list"
  overflow :: "64 word \<rightharpoonup> block"
  pool :: "64 word list"
  capacity :: nat
  wfail :: bool

definition read_block :: "DB \<Rightarrow> loc \<Rightarrow> error + block" where
  "read_block db l =
     (case l of
        InIndex i \<Rightarrow> if i < length (index db) then Inr (index db ! i) else Inl ErrIo
      | InData off \<Rightarrow> (case overflow db off of None \<Rightarrow> Inl ErrIo | Some b \<Rightarrow> Inr b))"

definition write_block :: "loc \<Rightarrow> block \<Rightarrow> DB \<Rightarrow> error option \<times> DB" where
  "write_block l b db =
     (if wfail db then (Some ErrIo, db)
      else case l of
        InIndex i \<Rightarrow>
          if i < length (index db) then (None, db\<lparr>index := (index db)[i := b]\<rparr>)
          else (Some ErrIo, db)
      | InData off \<Rightarrow> (None, db\<lparr>overflow := (overflow db)(off \<mapsto> b)\<rparr>))"

text \<open>\<^verbatim>\<open>db.index.extend(blockSize)\<close>: one more zeroed block; returns where it starts.\<close>

definition extend_index :: "DB \<Rightarrow> error + (nat \<times> DB)" where
  "extend_index db =
     (if length (index db) < capacity db
      then Inr (length (index db), db\<lparr>index := index db @ [empty_block]\<rparr>)
      else Inl ErrIo)"

text \<open>
  \<^verbatim>\<open>DB.createOverflowBlock\<close>: \<^verbatim>\<open>off, err := db.data.allocate(blockSize)\<close>, the error
  returned, otherwise a handle on a zeroed block at \<open>off\<close>.
\<close>

definition createOverflowBlock :: "DB \<Rightarrow> error + (64 word \<times> DB)" where
  "createOverflowBlock db =
     (case pool db of [] \<Rightarrow> Inl ErrFull | off # rest \<Rightarrow> Inr (off, db\<lparr>pool := rest\<rparr>))"

definition free_block :: "64 word \<Rightarrow> DB \<Rightarrow> DB" where
  "free_block off db = db\<lparr>pool := pool db @ [off]\<rparr>"

record blockHandle =
  offset :: loc
  blk :: block

definition new_handle :: "loc \<Rightarrow> blockHandle" where
  "new_handle l = \<lparr>offset = l, blk = empty_block\<rparr>"

text \<open>
  The writer that \<^verbatim>\<open>split\<close> fills: the block being filled, the next free slot in
  it, and the full blocks before it. \<^verbatim>\<open>insert\<close> puts the entry in the next slot;
  when the block is full it first chains a new overflow block to it.
\<close>

record entryWriter =
  wblock :: blockHandle
  entryIdx :: nat
  prevblocks :: "blockHandle list"

definition new_writer :: "loc \<Rightarrow> entryWriter" where
  "new_writer l = \<lparr>wblock = new_handle l, entryIdx = 0, prevblocks = []\<rparr>"

definition set_entry :: "nat \<Rightarrow> entry \<Rightarrow> blockHandle \<Rightarrow> blockHandle" where
  "set_entry i e h = h\<lparr>blk := (blk h)\<lparr>entries := (entries (blk h))[i := e]\<rparr>\<rparr>"

definition ew_insert :: "entry \<Rightarrow> entryWriter \<Rightarrow> DB \<Rightarrow> error + (entryWriter \<times> DB)" where
  "ew_insert e ew db =
     (if entryIdx ew = entriesPerBlock then
        (case createOverflowBlock db of
           Inl err \<Rightarrow> Inl err
         | Inr (off, db') \<Rightarrow>
             Inr (\<lparr>wblock = set_entry 0 e (new_handle (InData off)),
                   entryIdx = 1,
                   prevblocks = prevblocks ew @ [(wblock ew)\<lparr>blk := (blk (wblock ew))\<lparr>bnext := off\<rparr>\<rparr>]\<rparr>,
                  db'))
      else Inr (ew\<lparr>wblock := set_entry (entryIdx ew) e (wblock ew),
                    entryIdx := entryIdx ew + 1\<rparr>, db))"

fun write_handles :: "blockHandle list \<Rightarrow> DB \<Rightarrow> error option \<times> DB" where
  "write_handles [] db = (None, db)"
| "write_handles (h # hs) db =
     (case write_block (offset h) (blk h) db of
        (Some err, db') \<Rightarrow> (Some err, db')
      | (None, db') \<Rightarrow> write_handles hs db')"

text \<open>\<^verbatim>\<open>entryWriter.write\<close>: the full blocks, last one first, then the current block.\<close>

definition ew_write :: "entryWriter \<Rightarrow> DB \<Rightarrow> error option \<times> DB" where
  "ew_write ew db = write_handles (rev (prevblocks ew) @ [wblock ew]) db"

text \<open>
  \<^verbatim>\<open>DB.forEachBlock\<close>: read the block at \<open>l\<close>, hand it to the callback, stop when
  the callback says so or fails, otherwise follow \<^verbatim>\<open>next\<close> into the data file. The
  Go loop has no bound: on a cyclic chain it does not return, which is \<open>None\<close> here.
  The callback's state \<open>s\<close> carries the DB (\<open>dbof s\<close>).
\<close>

partial_function (option) forEachBlock ::
  "('s \<Rightarrow> DB) \<Rightarrow> (block \<Rightarrow> 's \<Rightarrow> bool \<times> error option \<times> 's) \<Rightarrow> loc \<Rightarrow> 's \<Rightarrow> (error option \<times> 's) option"
where
  "forEachBlock dbof cb l s =
     (case read_block (dbof s) l of
        Inl err \<Rightarrow> Some (Some err, s)
      | Inr b \<Rightarrow>
          (case cb b s of (stop, err, s') \<Rightarrow>
             if stop \<or> err \<noteq> None then Some (err, s')
             else if bnext b = 0 then Some (None, s')
             else forEachBlock dbof cb (InData (bnext b)) s'))"

type_synonym split_state = "entryWriter \<times> entryWriter \<times> 64 word list \<times> DB"

text \<open>
  The inner loop of the callback of \<^verbatim>\<open>split\<close>, over the slots of one block:
  \<^verbatim>\<open>if e.kvOffset == 0 { break }\<close>, then the entry goes to the updated block when
  \<^verbatim>\<open>db.blockIndex(e.hash) == updatedBlockIdx\<close> and to the new block otherwise; a failing
  insert ends the walk with its error.
\<close>

fun split_entries ::
  "32 word \<Rightarrow> entry list \<Rightarrow> entryWriter \<Rightarrow> entryWriter \<Rightarrow> DB \<Rightarrow> error option \<times> entryWriter \<times> entryWriter \<times> DB"
where
  "split_entries u [] uw nw db = (None, uw, nw, db)"
| "split_entries u (e # es) uw nw db =
     (if kvOffset e = 0 then (None, uw, nw, db)
      else if blockIndex db (hash e) = u then
        (case ew_insert e uw db of
           Inl err \<Rightarrow> (Some err, uw, nw, db)
         | Inr (uw', db') \<Rightarrow> split_entries u es uw' nw db')
      else
        (case ew_insert e nw db of
           Inl err \<Rightarrow> (Some err, uw, nw, db)
         | Inr (nw', db') \<Rightarrow> split_entries u es uw nw' db'))"

definition split_cb :: "32 word \<Rightarrow> block \<Rightarrow> split_state \<Rightarrow> bool \<times> error option \<times> split_state" where
  "split_cb u curb s =
     (case s of (uw, nw, ovs, db) \<Rightarrow>
        (case split_entries u (entries curb) uw nw db of
           (Some err, uw', nw', db') \<Rightarrow> (True, Some err, (uw', nw', ovs, db'))
         | (None, uw', nw', db') \<Rightarrow>
             (False, None, (uw', nw', (if bnext curb \<noteq> 0 then ovs @ [bnext curb] else ovs), db'))))"

text \<open>
  \<^verbatim>\<open>DB.split\<close>. \<open>freeOv\<close> tells the two variants of db.go apart: the second one
  frees the overflow blocks of the old chain (\<^verbatim>\<open>db.data.free(blockSize, off)\<close>), in
  the first that loop is commented out. The result is \<open>None\<close> when the walk
  along the chain does not return, otherwise the returned error (\<open>None\<close> for
  \<^verbatim>\<open>nil\<close>) and the DB as the call leaves it.
\<close>

definition split :: "bool \<Rightarrow> DB \<Rightarrow> (error option \<times> DB) option" where
  "split freeOv db =
     (let updatedBlockIdx = splitBlockIdx db;
          updatedBlock = new_writer (InIndex (unat updatedBlockIdx))
      in case extend_index db of
           Inl err \<Rightarrow> Some (Some err, db)
         | Inr (newBlockOff, db1) \<Rightarrow>
             (let newBlock = new_writer (InIndex newBlockOff);
                  db2 = db1\<lparr>splitBlockIdx := splitBlockIdx db1 + 1\<rparr>;
                  db3 = (if splitBlockIdx db2 = shl1 (level db2)
                         then db2\<lparr>level := level db2 + 1, splitBlockIdx := 0\<rparr>
                         else db2)
              in case forEachBlock (\<lambda>(uw, nw, ovs, d). d) (split_cb updatedBlockIdx)
                        (InIndex (unat updatedBlockIdx)) (updatedBlock, newBlock, [], db3) of
                   None \<Rightarrow> None
                 | Some (Some err, (uw, nw, ovs, db4)) \<Rightarrow> Some (Some err, db4)
                 | Some (None, (uw, nw, ovs, db4)) \<Rightarrow>
                     (let db5 = (if freeOv then fold free_block ovs db4 else db4)
                      in case ew_write nw db5 of
                           (Some err, db6) \<Rightarrow> Some (Some err, db6)
                         | (None, db6) \<Rightarrow>
                             (case ew_write uw db6 of
                                (Some err, db7) \<Rightarrow> Some (Some err, db7)
                              | (None, db7) \<Rightarrow> Some (None, db7\<lparr>nBlocks := nBlocks db7 + 1\<rparr>)))))"

text \<open>
  The DB that \<^verbatim>\<open>Open\<close> creates when there is no index file: \<^verbatim>\<open>nBlocks: 1\<close>,
  \<^verbatim>\<open>freelistOff: -1\<close>, the other directory fields zero, the random hash seed, and an
  index file extended by one block.
\<close>

definition fresh_db :: "32 word \<Rightarrow> 64 word list \<Rightarrow> nat \<Rightarrow> DB" where
  "fresh_db seed pl cap =
     \<lparr>level = 0, count = 0, nBlocks = 1, splitBlockIdx = 0, freelistOff = - 1, hashSeed = seed,
      index = [empty_block], overflow = Map.empty, pool = pl, capacity = cap, wfail = False\<rparr>"


text \<open>
  Two DB values with the same directory (\<^verbatim>\<open>level\<close>, \<^verbatim>\<open>splitBlockIdx\<close>, \<^verbatim>\<open>nBlocks\<close>) and
  index files of the same number of blocks.
\<close>

definition same_dir :: "DB \<Rightarrow> DB \<Rightarrow> bool" where
  "same_dir a b = (level b = level a \<and> splitBlockIdx b = splitBlockIdx a \<and> nBlocks b = nBlocks a
     \<and> length (index b) = length (index a))"





section \<open>The header of the index file (second document of message/trie.go)\<close>

text \<open>
  Go slices of bytes are lists here. \<open>slice a b xs\<close> is \<^verbatim>\<open>xs[a:b]\<close>;
  \<open>update_slice a b f xs\<close> is \<open>xs\<close> after a call that writes through \<^verbatim>\<open>xs[a:b]\<close>
  and leaves \<open>f\<close> of the old contents there. \<open>copy dst src\<close> is \<open>dst\<close> after Go's
  \<^verbatim>\<open>copy(dst, src)\<close>, which copies \<^verbatim>\<open>min(len(dst), len(src))\<close> elements.
\<close>

definition slice :: "nat \<Rightarrow> nat \<Rightarrow> 'a list \<Rightarrow> 'a list" where
  "slice a b xs = take (b - a) (drop a xs)"

definition update_slice :: "nat \<Rightarrow> nat \<Rightarrow> ('a list \<Rightarrow> 'a list) \<Rightarrow> 'a list \<Rightarrow> 'a list" where
  "update_slice a b f xs = take a xs @ f (slice a b xs) @ drop b xs"

definition copy :: "'a list \<Rightarrow> 'a list \<Rightarrow> 'a list" where
  "copy dst src =
     (let n = min (length dst) (length src) in take n src @ drop n dst)"

text \<open>
  \<^verbatim>\<open>binary.LittleEndian\<close>: \<^verbatim>\<open>PutUint32(b, v)\<close> stores \<^verbatim>\<open>byte(v), byte(v>>8), byte(v>>16),
  byte(v>>24)\<close> in \<^verbatim>\<open>b[0..3]\<close>, \<^verbatim>\<open>Uint32(b)\<close> reads them back; likewise for 64 bits.
\<close>

definition PutUint32 :: "8 word list \<Rightarrow> 32 word \<Rightarrow> 8 word list" where
  "PutUint32 b v =
     [ucast v, ucast (drop_bit 8 v), ucast (drop_bit 16 v), ucast (drop_bit 24 v)] @ drop 4 b"

definition Uint32 :: "8 word list \<Rightarrow> 32 word" where
  "Uint32 b = ucast (b ! 0) OR push_bit 8 (ucast (b ! 1)) OR push_bit 16 (ucast (b ! 2))
              OR push_bit 24 (ucast (b ! 3))"

definition PutUint64 :: "8 word list \<Rightarrow> 64 word \<Rightarrow> 8 word list" where
  "PutUint64 b v =
     [ucast v, ucast (drop_bit 8 v), ucast (drop_bit 16 v), ucast (drop_bit 24 v),
      ucast (drop_bit 32 v), ucast (drop_bit 40 v), ucast (drop_bit 48 v), ucast (drop_bit 56 v)]
     @ drop 8 b"

definition Uint64 :: "8 word list \<Rightarrow> 64 word" where
  "Uint64 b = ucast (b ! 0) OR push_bit 8 (ucast (b ! 1)) OR push_bit 16 (ucast (b ! 2))
              OR push_bit 24 (ucast (b ! 3)) OR push_bit 32 (ucast (b ! 4))
              OR push_bit 40 (ucast (b ! 5)) OR push_bit 48 (ucast (b ! 6))
              OR push_bit 56 (ucast (b ! 7))"

text \<open>
  \<^verbatim>\<open>type header struct { signature [7]byte; version uint32; dbInfo; _ [256]byte }\<close>.
  The array \<^verbatim>\<open>signature\<close> is a list of length 7; the blank field carries no data.
\<close>

record header = dbInfo +
  signature :: "8 word list"
  version :: "32 word"

text \<open>
  Modelled from the spec: \<^verbatim>\<open>headerSize = align512(uint32(binary.Size(header{})))\<close>, and
  \<^verbatim>\<open>align512\<close> is not among the source files. The struct has 292 bytes and the
  specification has the header "padded to 512 bytes" (\<^verbatim>\<open>HEADER_SIZE=512\<close>).
\<close>

definition headerSize :: nat where
  "headerSize = 512"

text \<open>\<^verbatim>\<open>header.MarshalBinary\<close>; the error it returns is always \<^verbatim>\<open>nil\<close>.\<close>

definition MarshalBinary :: "header \<Rightarrow> 8 word list" where
  "MarshalBinary h =
     (let buf = replicate headerSize 0;
          buf = update_slice 0 8 (\<lambda>d. copy d (signature h)) buf;
          buf = update_slice 8 12 (\<lambda>b. PutUint32 b (version h)) buf;
          buf = buf[12 := level h];
          buf = update_slice 13 17 (\<lambda>b. PutUint32 b (count h)) buf;
          buf = update_slice 17 21 (\<lambda>b. PutUint32 b (nBlocks h)) buf;
          buf = update_slice 21 25 (\<lambda>b. PutUint32 b (splitBlockIdx h)) buf;
          buf = update_slice 25 33 (\<lambda>b. PutUint64 b (freelistOff h)) buf;
          buf = update_slice 33 37 (\<lambda>b. PutUint32 b (hashSeed h)) buf
      in buf)"

text \<open>
  \<^verbatim>\<open>header.UnmarshalBinary\<close>, on the receiver \<open>h\<close>; the error it returns is always
  \<^verbatim>\<open>nil\<close>. On data shorter than the 37 bytes it reads the Go code panics (slice
  bounds out of range): \<open>None\<close>.
\<close>

definition UnmarshalBinary :: "header \<Rightarrow> 8 word list \<Rightarrow> header option" where
  "UnmarshalBinary h data =
     (if length data < 37 then None
      else Some (h\<lparr>signature := copy (signature h) (slice 0 8 data),
                    version := Uint32 (slice 8 12 data),
                    level := data ! 12,
                    count := Uint32 (slice 13 17 data),
                    nBlocks := Uint32 (slice 17 21 data),
                    splitBlockIdx := Uint32 (slice 21 25 data),
                    freelistOff := Uint64 (slice 25 33 data),
                    hashSeed := Uint32 (slice 33 37 data)\<rparr>))"

section \<open>Reading the header (db.go)\<close>

text \<open>
  The constant \<^verbatim>\<open>signature = [7]byte{'t', 'r', 'a', 'c', 'e', 'd', 'b'}\<close> that
  \<^verbatim>\<open>writeHeader\<close> stores and \<^verbatim>\<open>readHeader\<close> compares with (the record field has
  the name \<open>signature\<close> already).
\<close>

definition db_signature :: "8 word list" where
  "db_signature = [116, 114, 97, 99, 101, 100, 98]"

text \<open>\<^verbatim>\<open>&header{}\<close>: every field zero.\<close>

definition zero_header :: header where
  "zero_header =
     \<lparr>level = 0, count = 0, nBlocks = 0, splitBlockIdx = 0, freelistOff = 0, hashSeed = 0,
      signature = replicate 7 0, version = 0\<rparr>"

text \<open>
  Modelled from the spec: \<^verbatim>\<open>readUnmarshalableAt\<close> is not among the source files. It
  reads \<open>sz\<close> bytes of the file at offset \<open>off\<close> (an I/O error when the file is
  too short) and hands them to \<^verbatim>\<open>UnmarshalBinary\<close> of its first argument.
\<close>

definition readUnmarshalableAt :: "header \<Rightarrow> nat \<Rightarrow> nat \<Rightarrow> 8 word list \<Rightarrow> (error + header) option" where
  "readUnmarshalableAt h sz off file =
     (if length file < off + sz then Some (Inl ErrIo)
      else case UnmarshalBinary h (slice off (off + sz) file) of
             None \<Rightarrow> None
           | Some h' \<Rightarrow> Some (Inr h'))"

text \<open>
  \<^verbatim>\<open>DB.readHeader\<close>. \<open>verify\<close> tells the two variants of db.go apart: the second one
  has \<^verbatim>\<open>if !bytes.Equal(h.signature[:], signature[:]) { return errCorrupted }\<close>, in the
  first these lines are commented out. \<open>file\<close> is the index file, \<open>flread\<close> what
  reading the freelist at an offset returns (\<^verbatim>\<open>db.data.fl.read\<close>, not among the
  source files). The result is \<open>None\<close> when the call panics, otherwise the returned
  error (\<open>None\<close> for \<^verbatim>\<open>nil\<close>) and the DB as the call leaves it.
\<close>

definition readHeader ::
  "bool \<Rightarrow> 8 word list \<Rightarrow> (64 word \<Rightarrow> error option) \<Rightarrow> bool \<Rightarrow> DB \<Rightarrow> (error option \<times> DB) option" where
  "readHeader verify file flread readFreeList db =
     (case readUnmarshalableAt zero_header headerSize 0 file of
        None \<Rightarrow> None
      | Some (Inl err) \<Rightarrow> Some (Some err, db)
      | Some (Inr h) \<Rightarrow>
          if verify \<and> signature h \<noteq> db_signature then Some (Some ErrCorrupted, db)
          else
            (let db1 = db\<lparr>level := level h, count := count h, nBlocks := nBlocks h,
                           splitBlockIdx := splitBlockIdx h, freelistOff := freelistOff h,
                           hashSeed := hashSeed h\<rparr>
             in case (if readFreeList then flread (freelistOff db1) else None) of
                  Some err \<Rightarrow> Some (Some err, db1)
                | None \<Rightarrow> Some (None, db1\<lparr>freelistOff := - 1\<rparr>)))"

section \<open>Batches (batch.go) and the buffer pool (bpool.go)\<close>

text \<open>
  \<^verbatim>\<open>bpool.Buffer\<close> is the list of the bytes written to it; \<^verbatim>\<open>Size\<close> is their number.

  Modelled from the spec: the type \<^verbatim>\<open>buffer\<close> behind \<^verbatim>\<open>Buffer.internal\<close> is not among
  the source files; \<^verbatim>\<open>internal.reset()\<close> empties it ("Put resets the buffer and put it
  to the pool").
\<close>

type_synonym Buffer = "8 word list"

definition Size :: "Buffer \<Rightarrow> int" where
  "Size buf = int (length buf)"

definition reset :: "Buffer \<Rightarrow> Buffer" where
  "reset buf = []"

definition maxPoolSize :: nat where
  "maxPoolSize = 2048"

text \<open>
  \<^verbatim>\<open>BufferPool.Put\<close>: the pool is the channel \<^verbatim>\<open>pool.buf\<close> of capacity
  \<^verbatim>\<open>maxPoolSize\<close>; the buffer is reset, then sent to the channel unless the channel is
  full (\<^verbatim>\<open>select { case pool.buf <- buf: default: }\<close>).
\<close>

definition Put :: "Buffer list \<Rightarrow> Buffer \<Rightarrow> Buffer list" where
  "Put pl buf = (if length pl < maxPoolSize then pl @ [reset buf] else pl)"

text \<open>
  \<^verbatim>\<open>batchIndex\<close>; the field \<^verbatim>\<open>offset int64\<close> is \<open>boffset\<close> here (a block handle has
  an \<open>offset\<close> already).
\<close>

record batchIndex =
  delFlag :: bool
  key :: "32 word"
  boffset :: "64 word"

text \<open>
  \<^verbatim>\<open>Batch\<close>, the fields that \<^verbatim>\<open>uniq\<close>, \<^verbatim>\<open>Write\<close>, \<^verbatim>\<open>Commit\<close>, \<^verbatim>\<open>Abort\<close> and \<^verbatim>\<open>Reset\<close>
  use. \<open>allowDuplicates\<close> is \<^verbatim>\<open>opts.AllowDuplicates\<close>; \<open>bsize\<close> is \<^verbatim>\<open>size\<close>, \<open>bindex\<close> is
  \<^verbatim>\<open>index\<close>; \<open>bdb\<close> says that the pointer \<^verbatim>\<open>db\<close> is not \<^verbatim>\<open>nil\<close> (there is one DB);
  \<open>commitComplete\<close> says that the channel of that name is closed.
\<close>

record 't Batch =
  managed :: bool
  grouped :: bool
  allowDuplicates :: bool
  entryCount :: int
  buffer :: Buffer
  bsize :: "64 word"
  bdb :: bool
  topics :: "64 word \<rightharpoonup> 't"
  bindex :: "batchIndex list"
  pendingWrites :: "batchIndex list"
  commitComplete :: bool

text \<open>
  What \<^verbatim>\<open>Commit\<close> and \<^verbatim>\<open>Abort\<close> touch outside the batch: the DB as \<^verbatim>\<open>db.commit\<close> sees
  it (the write-ahead log), the buffer pool \<^verbatim>\<open>db.bufPool\<close>, and the errors handed to
  the logger.
\<close>

record 'w env =
  dbstate :: 'w
  bufPool :: "Buffer list"
  logged :: "error list"

text \<open>\<^verbatim>\<open>Batch.Len\<close>: \<^verbatim>\<open>len(b.pendingWrites)\<close>.\<close>

definition Len :: "'t Batch \<Rightarrow> nat" where
  "Len b = length (pendingWrites b)"

text \<open>\<^verbatim>\<open>Batch.Reset\<close>; \<^verbatim>\<open>b.index[:0]\<close> is the empty slice.\<close>

definition Reset :: "'t Batch \<Rightarrow> 't Batch" where
  "Reset b = b\<lparr>entryCount := 0, bsize := 0, bindex := [], pendingWrites := []\<rparr>"

text \<open>
  \<^verbatim>\<open>Batch.Abort\<close>. \<open>None\<close> is a panic: the failed \<^verbatim>\<open>_assert(!b.managed, ...)\<close>, or
  \<^verbatim>\<open>b.db.bufPool\<close> with \<^verbatim>\<open>b.db == nil\<close>. The buffer that \<^verbatim>\<open>Put\<close> resets is the one
  \<^verbatim>\<open>b.buffer\<close> points to.
\<close>

definition Abort :: "'t Batch \<Rightarrow> 'w env \<Rightarrow> ('t Batch \<times> 'w env) option" where
  "Abort b e =
     (if managed b then None
      else let b1 = Reset b
           in if \<not> bdb b1 then None
              else Some (b1\<lparr>buffer := reset (buffer b1), bdb := False\<rparr>,
                         e\<lparr>bufPool := Put (bufPool e) (buffer b1)\<rparr>))"

text \<open>
  \<^verbatim>\<open>Batch.Commit\<close>. \<open>commit\<close> is \<^verbatim>\<open>db.commit\<close>, which is not among the source files:
  what it returns for a number of entries and a buffer, and what it does to the DB.
  \<open>None\<close> is a panic: the failed assertion, a \<^verbatim>\<open>nil\<close> \<^verbatim>\<open>b.db\<close>, or the deferred
  \<^verbatim>\<open>close(b.commitComplete)\<close> on a channel that is closed already. The result is the
  returned error (\<open>None\<close> for \<^verbatim>\<open>nil\<close>), the batch and the environment.
\<close>

definition Commit ::
  "(nat \<Rightarrow> Buffer \<Rightarrow> 'w \<Rightarrow> error option \<times> 'w) \<Rightarrow> 't Batch \<Rightarrow> 'w env
     \<Rightarrow> (error option \<times> 't Batch \<times> 'w env) option" where
  "Commit commit b e =
     (if managed b then None
      else if length (pendingWrites b) = 0 \<or> Size (buffer b) = 0 then
        (case Abort b e of
           None \<Rightarrow> None
         | Some (b', e') \<Rightarrow> Some (None, b', e'))
      else if \<not> bdb b then None
      else
        (case commit (Len b) (buffer b) (dbstate e) of (err, w') \<Rightarrow>
           (let e1 = e\<lparr>dbstate := w'\<rparr>;
                e2 = (case err of None \<Rightarrow> e1 | Some x \<Rightarrow> e1\<lparr>logged := logged e1 @ [x]\<rparr>)
            in if commitComplete b then None
               else Some (None, b\<lparr>commitComplete := True\<rparr>, e2))))"

section \<open>Facts about the directory\<close>

lemma shl1_minus_1: "shl1 n - 1 = mask (unat n)"
  by (simp add: shl1_def mask_eq_exp_minus_1 push_bit_eq_mult)

lemma unat_and_shl1: "unat (h AND (shl1 n - 1)) = unat h mod 2 ^ unat n"
  by (metis shl1_minus_1 take_bit_eq_mask take_bit_eq_mod unsigned_take_bit_eq)

lemma unat_level_Suc: "unat (l :: 8 word) < 255 \<Longrightarrow> unat (l + 1) = unat l + 1"
  by (simp add: unat_word_ariths)

lemma blockIndex_mask:
  "blockIndex db h =
     (if h AND mask (unat (level db)) < splitBlockIdx db
      then h AND mask (unat (level db + 1))
      else h AND mask (unat (level db)))"
  by (simp add: blockIndex_def Let_def shl1_minus_1)

lemma blockIndex_nat:
  assumes l: "unat (level db) < 255"
  shows "unat (blockIndex db h) = dir_index (unat (level db)) (unat (splitBlockIdx db)) (unat h)"
proof -
  have lt: "(h AND (shl1 (level db) - 1) < splitBlockIdx db)
            = (unat h mod 2 ^ unat (level db) < unat (splitBlockIdx db))"
    by (simp add: word_less_nat_alt unat_and_shl1)
  show ?thesis
    using l by (simp add: blockIndex_def dir_index_def Let_def lt unat_and_shl1 unat_level_Suc)
qed

text \<open>
  C5. For every hash \<open>h\<close> and every directory state, \<^verbatim>\<open>blockIndex\<close> returns
  \<open>h AND (2^level - 1)\<close>, replaced by \<open>h AND (2^(level+1) - 1)\<close> exactly when the former
  is below \<^verbatim>\<open>splitBlockIdx\<close>. Below level 255 (where \<^verbatim>\<open>level + 1\<close> does not wrap in
  \<^verbatim>\<open>uint8\<close>) this is the specification's formula read over the naturals.
\<close>

theorem blockIndex_formula:
  "blockIndex db h =
     (if h AND mask (unat (level db)) < splitBlockIdx db
      then h AND mask (unat (level db + 1))
      else h AND mask (unat (level db)))
   \<and> (unat (level db) < 255 \<longrightarrow>
        unat (blockIndex db h) = dir_index (unat (level db)) (unat (splitBlockIdx db)) (unat h))"
  using blockIndex_mask [of db h] blockIndex_nat [of db h] by blast

theorem blockIndex_formula_witness:
  "unat (level \<lparr>level = 2, count = 0, nBlocks = 5, splitBlockIdx = 1, freelistOff = 0, hashSeed = 0\<rparr>) < 255
   \<and> unat (blockIndex \<lparr>level = 2, count = 0, nBlocks = 5, splitBlockIdx = 1, freelistOff = 0, hashSeed = 0\<rparr> 12) = 4"
  using blockIndex_formula [of "\<lparr>level = 2, count = 0, nBlocks = 5, splitBlockIdx = 1, freelistOff = 0, hashSeed = 0\<rparr>" 12, THEN conjunct2]
  by (simp add: dir_index_def)

section \<open>What a call of split does to the directory\<close>



lemma same_dir_refl [simp]: "same_dir a a" by (simp add: same_dir_def)




























lemma word32_of_nat_Suc: "(of_nat s :: 32 word) + 1 = of_nat (s + 1)"
  by simp











section \<open>The header survives a round trip\<close>

lemma Uint32_PutUint32: "Uint32 (PutUint32 b v) = v"
proof (rule bit_word_eqI)
  fix n assume "n < LENGTH(32)"
  then consider "n < 8" | "8 \<le> n" "n < 16" | "16 \<le> n" "n < 24" | "24 \<le> n" "n < 32"
    by fastforce
  then show "bit (Uint32 (PutUint32 b v)) n = bit v n"
    by cases (simp_all add: Uint32_def PutUint32_def bit_simps less_diff_conv2)
qed

lemma Uint64_PutUint64: "Uint64 (PutUint64 b v) = v"
proof (rule bit_word_eqI)
  fix n assume "n < LENGTH(64)"
  then consider "n < 8" | "8 \<le> n" "n < 16" | "16 \<le> n" "n < 24" | "24 \<le> n" "n < 32"
    | "32 \<le> n" "n < 40" | "40 \<le> n" "n < 48" | "48 \<le> n" "n < 56" | "56 \<le> n" "n < 64"
    by fastforce
  then show "bit (Uint64 (PutUint64 b v)) n = bit v n"
    by cases (simp_all add: Uint64_def PutUint64_def bit_simps less_diff_conv2)
qed

lemma length_PutUint32: "length (PutUint32 b v) = 4 + (length b - 4)"
  by (simp add: PutUint32_def)

lemma length_PutUint64: "length (PutUint64 b v) = 8 + (length b - 8)"
  by (simp add: PutUint64_def)

lemma update_slice_at:
  assumes "xs = pre @ mid @ post" "length pre = a" "length mid = b - a" "a \<le> b"
  shows "update_slice a b f xs = pre @ f mid @ post"
  using assms by (simp add: update_slice_def slice_def)

lemma list_update_at:
  assumes "xs = pre @ [x] @ post" "length pre = i"
  shows "xs[i := y] = pre @ [y] @ post"
  using assms by (simp add: list_update_append)

lemma MarshalBinary_layout:
  assumes sig: "length (signature h) = 7"
  shows "MarshalBinary h =
     (signature h @ [0]) @ PutUint32 (replicate 4 0) (version h) @ [level h]
     @ PutUint32 (replicate 4 0) (count h) @ PutUint32 (replicate 4 0) (nBlocks h)
     @ PutUint32 (replicate 4 0) (splitBlockIdx h) @ PutUint64 (replicate 8 0) (freelistOff h)
     @ PutUint32 (replicate 4 0) (hashSeed h) @ replicate 475 0"
proof -
  define z4 where "z4 = replicate 4 (0::8 word)"
  define z8 where "z8 = replicate 8 (0::8 word)"
  define pad where "pad = replicate 475 (0::8 word)"
  define S where "S = signature h @ [0]"
  define V where "V = PutUint32 z4 (version h)"
  define C where "C = PutUint32 z4 (count h)"
  define N where "N = PutUint32 z4 (nBlocks h)"
  define P where "P = PutUint32 z4 (splitBlockIdx h)"
  define F where "F = PutUint64 z8 (freelistOff h)"
  define H where "H = PutUint32 z4 (hashSeed h)"
  have len: "length z4 = 4" "length z8 = 8" "length S = 8" "length V = 4" "length C = 4"
    "length N = 4" "length P = 4" "length F = 8" "length H = 4"
    using sig
    by (simp_all add: z4_def z8_def S_def V_def C_def N_def P_def F_def H_def
        length_PutUint32 length_PutUint64)
  have one: "[0::8 word] = replicate 1 0" by simp
  have b0: "replicate headerSize (0::8 word) = z8 @ z4 @ [0] @ z4 @ z4 @ z4 @ z8 @ z4 @ pad"
    unfolding z4_def z8_def pad_def headerSize_def one
    by (simp only: replicate_add [symmetric]) simp
  have c: "copy z8 (signature h) = S"
    using sig by (simp add: copy_def z8_def S_def)
  have x1: "update_slice 0 8 (\<lambda>d. copy d (signature h)) (z8 @ z4 @ [0] @ z4 @ z4 @ z4 @ z8 @ z4 @ pad)
            = S @ z4 @ [0] @ z4 @ z4 @ z4 @ z8 @ z4 @ pad"
    using update_slice_at [where pre = "[]" and mid = z8 and a = 0 and b = 8
        and f = "\<lambda>d. copy d (signature h)" and post = "z4 @ [0] @ z4 @ z4 @ z4 @ z8 @ z4 @ pad", OF refl]
    by (simp add: len c)
  have x2: "update_slice 8 12 (\<lambda>b. PutUint32 b (version h)) (S @ z4 @ [0] @ z4 @ z4 @ z4 @ z8 @ z4 @ pad)
            = S @ V @ [0] @ z4 @ z4 @ z4 @ z8 @ z4 @ pad"
    using update_slice_at [where pre = S and mid = z4 and a = 8 and b = 12
        and f = "\<lambda>b. PutUint32 b (version h)" and post = "[0] @ z4 @ z4 @ z4 @ z8 @ z4 @ pad", OF refl]
    by (simp add: len V_def)
  have x3: "(S @ V @ [0] @ z4 @ z4 @ z4 @ z8 @ z4 @ pad)[12 := level h]
            = S @ V @ [level h] @ z4 @ z4 @ z4 @ z8 @ z4 @ pad"
    using list_update_at [where pre = "S @ V" and x = 0 and i = 12 and y = "level h"
        and post = "z4 @ z4 @ z4 @ z8 @ z4 @ pad", OF _ ]
    by (simp add: len)
  have x4: "update_slice 13 17 (\<lambda>b. PutUint32 b (count h)) (S @ V @ [level h] @ z4 @ z4 @ z4 @ z8 @ z4 @ pad)
            = S @ V @ [level h] @ C @ z4 @ z4 @ z8 @ z4 @ pad"
    using update_slice_at [where pre = "S @ V @ [level h]" and mid = z4 and a = 13 and b = 17
        and f = "\<lambda>b. PutUint32 b (count h)" and post = "z4 @ z4 @ z8 @ z4 @ pad"]
    by (simp add: len C_def)
  have x5: "update_slice 17 21 (\<lambda>b. PutUint32 b (nBlocks h)) (S @ V @ [level h] @ C @ z4 @ z4 @ z8 @ z4 @ pad)
            = S @ V @ [level h] @ C @ N @ z4 @ z8 @ z4 @ pad"
    using update_slice_at [where pre = "S @ V @ [level h] @ C" and mid = z4 and a = 17 and b = 21
        and f = "\<lambda>b. PutUint32 b (nBlocks h)" and post = "z4 @ z8 @ z4 @ pad"]
    by (simp add: len N_def)
  have x6: "update_slice 21 25 (\<lambda>b. PutUint32 b (splitBlockIdx h)) (S @ V @ [level h] @ C @ N @ z4 @ z8 @ z4 @ pad)
            = S @ V @ [level h] @ C @ N @ P @ z8 @ z4 @ pad"
    using update_slice_at [where pre = "S @ V @ [level h] @ C @ N" and mid = z4 and a = 21 and b = 25
        and f = "\<lambda>b. PutUint32 b (splitBlockIdx h)" and post = "z8 @ z4 @ pad"]
    by (simp add: len P_def)
  have x7: "update_slice 25 33 (\<lambda>b. PutUint64 b (freelistOff h)) (S @ V @ [level h] @ C @ N @ P @ z8 @ z4 @ pad)
            = S @ V @ [level h] @ C @ N @ P @ F @ z4 @ pad"
    using update_slice_at [where pre = "S @ V @ [level h] @ C @ N @ P" and mid = z8 and a = 25 and b = 33
        and f = "\<lambda>b. PutUint64 b (freelistOff h)" and post = "z4 @ pad"]
    by (simp add: len F_def)
  have x8: "update_slice 33 37 (\<lambda>b. PutUint32 b (hashSeed h)) (S @ V @ [level h] @ C @ N @ P @ F @ z4 @ pad)
            = S @ V @ [level h] @ C @ N @ P @ F @ H @ pad"
    using update_slice_at [where pre = "S @ V @ [level h] @ C @ N @ P @ F" and mid = z4 and a = 33 and b = 37
        and f = "\<lambda>b. PutUint32 b (hashSeed h)" and post = pad]
    by (simp add: len H_def)
  have "MarshalBinary h = S @ V @ [level h] @ C @ N @ P @ F @ H @ pad"
    unfolding MarshalBinary_def Let_def b0 x1 x2 x3 x4 x5 x6 x7 x8 ..
  then show ?thesis
    by (simp only: S_def V_def C_def N_def P_def F_def H_def z4_def z8_def pad_def)
qed

lemma slice_at:
  assumes "xs = pre @ mid @ post" "length pre = a" "length mid = b - a"
  shows "slice a b xs = mid"
  using assms by (simp add: slice_def)

lemma nth_at:
  assumes "xs = pre @ [x] @ post" "length pre = i"
  shows "xs ! i = x"
  using assms by (simp add: nth_append)

lemma length_MarshalBinary: "length (signature h) = 7 \<Longrightarrow> length (MarshalBinary h) = 512"
  by (simp add: MarshalBinary_layout length_PutUint32 length_PutUint64)

lemma UnmarshalBinary_MarshalBinary:
  assumes sig: "length (signature h) = 7" and sig0: "length (signature h0) = 7"
  shows "UnmarshalBinary h0 (MarshalBinary h) =
           Some (h0\<lparr>signature := signature h, version := version h, level := level h,
                     count := count h, nBlocks := nBlocks h, splitBlockIdx := splitBlockIdx h,
                     freelistOff := freelistOff h, hashSeed := hashSeed h\<rparr>)"
proof -
  define S where "S = signature h @ [0]"
  define V where "V = PutUint32 (replicate 4 0) (version h)"
  define C where "C = PutUint32 (replicate 4 0) (count h)"
  define N where "N = PutUint32 (replicate 4 0) (nBlocks h)"
  define P where "P = PutUint32 (replicate 4 0) (splitBlockIdx h)"
  define F where "F = PutUint64 (replicate 8 0) (freelistOff h)"
  define H where "H = PutUint32 (replicate 4 0) (hashSeed h)"
  define pad where "pad = replicate 475 (0::8 word)"
  define data where "data = MarshalBinary h"
  have len: "length S = 8" "length V = 4" "length C = 4"
    "length N = 4" "length P = 4" "length F = 8" "length H = 4"
    using sig
    by (simp_all add: S_def V_def C_def N_def P_def F_def H_def length_PutUint32 length_PutUint64)
  have d: "data = S @ V @ [level h] @ C @ N @ P @ F @ H @ pad"
    unfolding data_def S_def V_def C_def N_def P_def F_def H_def pad_def
    by (rule MarshalBinary_layout [OF sig])
  have l: "\<not> length data < 37"
    by (simp add: data_def length_MarshalBinary [OF sig])
  have r1: "slice 0 8 data = S"
    by (rule slice_at [where pre = "[]" and post = "V @ [level h] @ C @ N @ P @ F @ H @ pad"])
       (simp_all add: d len)
  have r2: "slice 8 12 data = V"
    by (rule slice_at [where pre = S and post = "[level h] @ C @ N @ P @ F @ H @ pad"])
       (simp_all add: d len)
  have r3: "data ! 12 = level h"
    by (rule nth_at [where pre = "S @ V" and post = "C @ N @ P @ F @ H @ pad"])
       (simp_all add: d len)
  have r4: "slice 13 17 data = C"
    by (rule slice_at [where pre = "S @ V @ [level h]" and post = "N @ P @ F @ H @ pad"])
       (simp_all add: d len)
  have r5: "slice 17 21 data = N"
    by (rule slice_at [where pre = "S @ V @ [level h] @ C" and post = "P @ F @ H @ pad"])
       (simp_all add: d len)
  have r6: "slice 21 25 data = P"
    by (rule slice_at [where pre = "S @ V @ [level h] @ C @ N" and post = "F @ H @ pad"])
       (simp_all add: d len)
  have r7: "slice 25 33 data = F"
    by (rule slice_at [where pre = "S @ V @ [level h] @ C @ N @ P" and post = "H @ pad"])
       (simp_all add: d len)
  have r8: "slice 33 37 data = H"
    by (rule slice_at [where pre = "S @ V @ [level h] @ C @ N @ P @ F" and post = pad])
       (simp_all add: d len)
  have c: "copy (signature h0) S = signature h"
    using sig sig0 by (simp add: copy_def S_def)
  have "UnmarshalBinary h0 data =
           Some (h0\<lparr>signature := signature h, version := version h, level := level h,
                     count := count h, nBlocks := nBlocks h, splitBlockIdx := splitBlockIdx h,
                     freelistOff := freelistOff h, hashSeed := hashSeed h\<rparr>)"
    unfolding UnmarshalBinary_def r1 r2 r3 r4 r5 r6 r7 r8 c
    by (simp add: l V_def C_def N_def P_def F_def H_def Uint32_PutUint32 Uint64_PutUint64)
  then show ?thesis by (simp only: data_def)
qed

lemma MarshalBinary_fields:
  assumes "signature a = signature b" "version a = version b" "level a = level b"
    "count a = count b" "nBlocks a = nBlocks b" "splitBlockIdx a = splitBlockIdx b"
    "freelistOff a = freelistOff b" "hashSeed a = hashSeed b"
  shows "MarshalBinary a = MarshalBinary b"
  by (simp add: MarshalBinary_def assms)

text \<open>
  C8. For every header \<open>h\<close> (its \<^verbatim>\<open>signature\<close> an array of 7 bytes), \<^verbatim>\<open>MarshalBinary\<close>
  yields a buffer of 512 bytes; \<^verbatim>\<open>UnmarshalBinary\<close> of that buffer, on any receiver,
  returns, with every field of \<open>h\<close> read back; and marshalling the result again yields
  the same buffer, byte for byte: \<open>marshal(unmarshal(marshal(h))) = marshal(h)\<close>.
\<close>

theorem header_round_trip:
  assumes sig: "length (signature h) = 7" and sig0: "length (signature h0) = 7"
  shows "\<exists>h'. UnmarshalBinary h0 (MarshalBinary h) = Some h'
            \<and> MarshalBinary h' = MarshalBinary h
            \<and> length (MarshalBinary h) = 512
            \<and> signature h' = signature h \<and> version h' = version h \<and> level h' = level h
            \<and> count h' = count h \<and> nBlocks h' = nBlocks h \<and> splitBlockIdx h' = splitBlockIdx h
            \<and> freelistOff h' = freelistOff h \<and> hashSeed h' = hashSeed h"
proof -
  let ?h' = "h0\<lparr>signature := signature h, version := version h, level := level h,
                 count := count h, nBlocks := nBlocks h, splitBlockIdx := splitBlockIdx h,
                 freelistOff := freelistOff h, hashSeed := hashSeed h\<rparr>"
  have u: "UnmarshalBinary h0 (MarshalBinary h) = Some ?h'"
    by (rule UnmarshalBinary_MarshalBinary [OF sig sig0])
  have m: "MarshalBinary ?h' = MarshalBinary h"
    by (rule MarshalBinary_fields) simp_all
  from u m length_MarshalBinary [OF sig] show ?thesis by simp
qed

theorem header_round_trip_witness:
  "length (signature
      \<lparr>level = 2, count = 70, nBlocks = 5, splitBlockIdx = 1, freelistOff = - 1, hashSeed = 9,
       signature = [116, 114, 97, 99, 101, 100, 98], version = 1\<rparr>) = 7
   \<and> length (signature
      \<lparr>level = 0, count = 0, nBlocks = 0, splitBlockIdx = 0, freelistOff = 0, hashSeed = 0,
       signature = [0, 0, 0, 0, 0, 0, 0], version = 0\<rparr>) = 7
   \<and> MarshalBinary (the (UnmarshalBinary
        \<lparr>level = 0, count = 0, nBlocks = 0, splitBlockIdx = 0, freelistOff = 0, hashSeed = 0,
         signature = [0, 0, 0, 0, 0, 0, 0], version = 0\<rparr>
        (MarshalBinary
          \<lparr>level = 2, count = 70, nBlocks = 5, splitBlockIdx = 1, freelistOff = - 1, hashSeed = 9,
           signature = [116, 114, 97, 99, 101, 100, 98], version = 1\<rparr>)))
     = MarshalBinary
        \<lparr>level = 2, count = 70, nBlocks = 5, splitBlockIdx = 1, freelistOff = - 1, hashSeed = 9,
         signature = [116, 114, 97, 99, 101, 100, 98], version = 1\<rparr>"
  using header_round_trip
    [of "\<lparr>level = 2, count = 70, nBlocks = 5, splitBlockIdx = 1, freelistOff = - 1, hashSeed = 9,
         signature = [116, 114, 97, 99, 101, 100, 98], version = 1\<rparr>"
        "\<lparr>level = 0, count = 0, nBlocks = 0, splitBlockIdx = 0, freelistOff = 0, hashSeed = 0,
         signature = [0, 0, 0, 0, 0, 0, 0], version = 0\<rparr>"]
  by auto

section \<open>readHeader and the signature\<close>

lemma readUnmarshalableAt_MarshalBinary:
  assumes sig: "length (signature h) = 7"
  shows "readUnmarshalableAt zero_header headerSize 0 (MarshalBinary h) =
           Some (Inr (zero_header\<lparr>signature := signature h, version := version h, level := level h,
                     count := count h, nBlocks := nBlocks h, splitBlockIdx := splitBlockIdx h,
                     freelistOff := freelistOff h, hashSeed := hashSeed h\<rparr>))"
proof -
  have z: "length (signature zero_header) = 7" by (simp add: zero_header_def)
  have l: "length (MarshalBinary h) = 512" by (rule length_MarshalBinary [OF sig])
  have s: "slice 0 (0 + headerSize) (MarshalBinary h) = MarshalBinary h"
    by (simp add: slice_def headerSize_def l)
  show ?thesis
    unfolding readUnmarshalableAt_def s UnmarshalBinary_MarshalBinary [OF sig z]
    by (simp add: l headerSize_def)
qed

text \<open>
  C4. The index file holds the header that \<^verbatim>\<open>MarshalBinary\<close> writes for the signature
  \<^verbatim>\<open>"badsig!"\<close> instead of \<^verbatim>\<open>"tracedb"\<close>. The first variant of \<^verbatim>\<open>readHeader\<close>
  returns \<^verbatim>\<open>nil\<close> and takes the directory from that header; the second variant
  returns \<^verbatim>\<open>errCorrupted\<close> and leaves the DB as it was.
\<close>

theorem readHeader_accepts_bad_signature:
  "signature \<lparr>level = 3, count = 7, nBlocks = 9, splitBlockIdx = 1, freelistOff = 0, hashSeed = 5,
       signature = [98, 97, 100, 115, 105, 103, 33], version = 1\<rparr> \<noteq> db_signature
   \<and> readHeader False
       (MarshalBinary
          \<lparr>level = 3, count = 7, nBlocks = 9, splitBlockIdx = 1, freelistOff = 0, hashSeed = 5,
           signature = [98, 97, 100, 115, 105, 103, 33], version = 1\<rparr>)
       (\<lambda>off. None) False (fresh_db 0 [] 1)
     = Some (None, (fresh_db 0 [] 1)\<lparr>level := 3, count := 7, nBlocks := 9, splitBlockIdx := 1,
                                      freelistOff := - 1, hashSeed := 5\<rparr>)
   \<and> readHeader True
       (MarshalBinary
          \<lparr>level = 3, count = 7, nBlocks = 9, splitBlockIdx = 1, freelistOff = 0, hashSeed = 5,
           signature = [98, 97, 100, 115, 105, 103, 33], version = 1\<rparr>)
       (\<lambda>off. None) False (fresh_db 0 [] 1)
     = Some (Some ErrCorrupted, fresh_db 0 [] 1)"
proof -
  let ?h = "\<lparr>level = 3, count = 7, nBlocks = 9, splitBlockIdx = 1, freelistOff = 0, hashSeed = 5,
           signature = [98, 97, 100, 115, 105, 103, 33], version = 1 :: 32 word\<rparr>"
  have sig: "length (signature ?h) = 7" by simp
  note r = readUnmarshalableAt_MarshalBinary [OF sig]
  show ?thesis
    unfolding readHeader_def r
    by (simp add: db_signature_def fresh_db_def)
qed

section \<open>Commit\<close>

text \<open>
  C9, as amended. For every batch that is not managed, whose pointer \<^verbatim>\<open>db\<close> is set, and
  whose \<^verbatim>\<open>pendingWrites\<close> is empty or whose buffer has size zero, \<^verbatim>\<open>Commit\<close> returns
  \<^verbatim>\<open>nil\<close> whatever \<^verbatim>\<open>db.commit\<close> would do: the DB behind the write-ahead log and the
  logger are untouched and \<^verbatim>\<open>commitComplete\<close> is not closed; entry count, size, index
  and \<^verbatim>\<open>pendingWrites\<close> are reset, the buffer is handed to \<^verbatim>\<open>bufPool.Put\<close> (reset, and
  in the pool unless the pool is full), and \<^verbatim>\<open>db\<close> is \<^verbatim>\<open>nil\<close> afterwards.
\<close>

theorem Commit_empty_aborts:
  assumes "\<not> managed b" and "bdb b" and "pendingWrites b = [] \<or> Size (buffer b) = 0"
  shows "Commit commit b e =
           Some (None,
                 b\<lparr>entryCount := 0, bsize := 0, bindex := [], pendingWrites := [], buffer := [],
                    bdb := False\<rparr>,
                 e\<lparr>bufPool := (if length (bufPool e) < maxPoolSize then bufPool e @ [[]]
                                 else bufPool e)\<rparr>)"
  using assms by (auto simp: Commit_def Abort_def Reset_def Put_def reset_def Let_def)

theorem Commit_empty_aborts_witness:
  "\<not> managed \<lparr>managed = False, grouped = False, allowDuplicates = False, entryCount = 0,
        buffer = [], bsize = 0, bdb = True, topics = (Map.empty :: 64 word \<rightharpoonup> nat),
        bindex = [], pendingWrites = [], commitComplete = False\<rparr>
   \<and> Commit (\<lambda>n buf w. (Some ErrWal, buf # w))
        \<lparr>managed = False, grouped = False, allowDuplicates = False, entryCount = 0,
         buffer = [], bsize = 0, bdb = True, topics = (Map.empty :: 64 word \<rightharpoonup> nat),
         bindex = [], pendingWrites = [], commitComplete = False\<rparr>
        \<lparr>dbstate = [], bufPool = [], logged = []\<rparr>
     = Some (None,
        \<lparr>managed = False, grouped = False, allowDuplicates = False, entryCount = 0,
         buffer = [], bsize = 0, bdb = False, topics = Map.empty,
         bindex = [], pendingWrites = [], commitComplete = False\<rparr>,
        \<lparr>dbstate = [], bufPool = [[]], logged = []\<rparr>)"
  using Commit_empty_aborts
    [of "\<lparr>managed = False, grouped = False, allowDuplicates = False, entryCount = 0,
         buffer = [], bsize = 0, bdb = True, topics = (Map.empty :: 64 word \<rightharpoonup> nat),
         bindex = [], pendingWrites = [], commitComplete = False\<rparr>"
        "\<lambda>n buf w. (Some ErrWal, buf # w)"
        "\<lparr>dbstate = [], bufPool = [], logged = []\<rparr>"]
  by (simp add: maxPoolSize_def)

text \<open>
  A batch that has been aborted before (\<^verbatim>\<open>b.db == nil\<close>, nothing pending) is not
  managed and has no pending writes, and \<^verbatim>\<open>Commit\<close> panics on it in \<^verbatim>\<open>Abort\<close>, at
  \<^verbatim>\<open>b.db.bufPool\<close>: it does not return \<^verbatim>\<open>nil\<close>.
\<close>

theorem Commit_aborted_batch_panics:
  "Commit (\<lambda>n buf w. (None, buf # w))
        \<lparr>managed = False, grouped = False, allowDuplicates = False, entryCount = 0,
         buffer = [], bsize = 0, bdb = False, topics = (Map.empty :: 64 word \<rightharpoonup> nat),
         bindex = [], pendingWrites = [], commitComplete = False\<rparr>
        \<lparr>dbstate = [], bufPool = [], logged = []\<rparr>
     = None"
  by (simp add: Commit_def Abort_def Reset_def)




end
